theory Spec2Isabelle
  imports Main "HOL-Library.Word"
begin

section \<open>Viewer tokens of the HubSpot document-viewer backend\<close>

text \<open>
  A shallow embedding of the viewer-token code of \<^verbatim>\<open>src/backend/server.js\<close>:
  the process-wide \<^verbatim>\<open>viewerTokens\<close> map, \<^verbatim>\<open>generateViewerToken\<close>,
  \<^verbatim>\<open>validateViewerToken\<close>, and the token checks of the routes that mint and
  present tokens.

  Conventions of the embedding.
  \<^item> \<^verbatim>\<open>Date.now()\<close> is read once per call and passed in as the argument \<open>now\<close>
    (milliseconds, an integer).
  \<^item> The bytes returned by \<^verbatim>\<open>crypto.randomBytes(32)\<close> are passed in as the
    argument \<open>rnd\<close>.
  \<^item> A request field that may be absent (\<^verbatim>\<open>undefined\<close>) is a \<open>string option\<close>.
  \<^item> The in-memory \<^verbatim>\<open>Map\<close> is a partial function from token strings to records.
  \<^item> Pending \<^verbatim>\<open>setTimeout\<close> callbacks are kept in the state as a list of
    (delay, token) pairs.
\<close>

subsection \<open>Data\<close>

record token_data =
  fileId :: string
  filename :: string
  expiresAt :: int
  used :: bool

record server_state =
  viewerTokens :: "string \<rightharpoonup> token_data"
  timers :: "(int \<times> string) list"

text \<open>JavaScript truthiness of a value that is either \<^verbatim>\<open>undefined\<close> or a string.\<close>

definition truthy :: "string option \<Rightarrow> bool" where
  "truthy v = (case v of None \<Rightarrow> False | Some s \<Rightarrow> s \<noteq> [])"

text \<open>\<^verbatim>\<open>a || b\<close> on such values, with a string on the right.\<close>

definition or_else :: "string option \<Rightarrow> string \<Rightarrow> string" where
  "or_else v d = (case v of None \<Rightarrow> d | Some s \<Rightarrow> if s \<noteq> [] then s else d)"

text \<open>
  \<^verbatim>\<open>Map.prototype.get\<close> and \<^verbatim>\<open>Map.prototype.delete\<close> with a key that may be
  \<^verbatim>\<open>undefined\<close>: every key of the map is a string, so \<^verbatim>\<open>undefined\<close> is never found,
  and deleting it removes nothing.
\<close>

definition Map_get :: "(string \<rightharpoonup> 'v) \<Rightarrow> string option \<Rightarrow> 'v option" where
  "Map_get m k = (case k of None \<Rightarrow> None | Some s \<Rightarrow> m s)"

definition Map_delete :: "(string \<rightharpoonup> 'v) \<Rightarrow> string option \<Rightarrow> (string \<rightharpoonup> 'v)" where
  "Map_delete m k = (case k of None \<Rightarrow> m | Some s \<Rightarrow> m(s := None))"

subsection \<open>Hexadecimal rendering of the random bytes\<close>

text \<open>
  \<^verbatim>\<open>Buffer.prototype.toString('hex')\<close>: two lower-case digits per byte. A digit is
  looked up only for the two halves of a byte, which are below 16.
\<close>

definition hex_digit :: "nat \<Rightarrow> char" where
  "hex_digit n = ''0123456789abcdef'' ! n"

definition hex_byte :: "8 word \<Rightarrow> string" where
  "hex_byte b = [hex_digit (unat b div 16), hex_digit (unat b mod 16)]"

definition toString_hex :: "8 word list \<Rightarrow> string" where
  "toString_hex bs = concat (map hex_byte bs)"

subsection \<open>Minting and validating\<close>

text \<open>The body of the arrow function handed to \<^verbatim>\<open>setTimeout\<close>.\<close>

definition cleanup_callback :: "string \<Rightarrow> server_state \<Rightarrow> server_state" where
  "cleanup_callback token st = st\<lparr>viewerTokens := (viewerTokens st)(token := None)\<rparr>"

text \<open>A pending timer fires: it leaves the pending list and its callback runs.\<close>

definition run_timer :: "int \<times> string \<Rightarrow> server_state \<Rightarrow> server_state" where
  "run_timer tm st = cleanup_callback (snd tm) (st\<lparr>timers := remove1 tm (timers st)\<rparr>)"

definition generateViewerToken ::
  "8 word list \<Rightarrow> int \<Rightarrow> string \<Rightarrow> string \<Rightarrow> server_state \<Rightarrow> string \<times> server_state" where
  "generateViewerToken rnd now fid fname st =
     (let token = toString_hex rnd;
          exp = now + (15 * 60 * 1000)
      in (token,
          st\<lparr>viewerTokens := (viewerTokens st)
                (token \<mapsto> \<lparr>fileId = fid, filename = fname, expiresAt = exp, used = False\<rparr>),
             timers := timers st @ [(15 * 60 * 1000, token)]\<rparr>))"

text \<open>The result \<open>None\<close> is the source's \<^verbatim>\<open>null\<close>.\<close>

definition validateViewerToken ::
  "string option \<Rightarrow> int \<Rightarrow> server_state \<Rightarrow> token_data option \<times> server_state" where
  "validateViewerToken token now st =
     (case Map_get (viewerTokens st) token of
        None \<Rightarrow> (None, st)
      | Some tokenData \<Rightarrow>
          if now > expiresAt tokenData
          then (None, st\<lparr>viewerTokens := Map_delete (viewerTokens st) token\<rparr>)
          else (Some tokenData, st))"

text \<open>Successive calls of \<^verbatim>\<open>validateViewerToken\<close> with one token, at the given times.\<close>

fun validate_seq ::
  "string option \<Rightarrow> int list \<Rightarrow> server_state \<Rightarrow> token_data option list \<times> server_state" where
  "validate_seq token [] st = ([], st)"
| "validate_seq token (now # nows) st =
     (let (r, st1) = validateViewerToken token now st;
          (rs, st2) = validate_seq token nows st1
      in (r # rs, st2))"

subsection \<open>Routes\<close>

text \<open>
  What a route does with a request: it answers with a status code and an error text, or
  it goes on to the work behind the checks.
\<close>

datatype 'a outcome = Respond nat string | Proceed 'a

text \<open>
  The middleware \<^verbatim>\<open>validateHubSpotRequest\<close>. The regular-expression tests on the origin,
  the referer's domain and the user agent are summed up in \<open>isFromHubSpot\<close>; the
  result \<open>True\<close> is the call of \<^verbatim>\<open>next()\<close>, \<open>False\<close> the 401 answer.
\<close>

definition validateHubSpotRequest :: "bool \<Rightarrow> string option \<Rightarrow> string option \<Rightarrow> bool" where
  "validateHubSpotRequest isFromHubSpot origin_hdr referer_hdr =
     (if isFromHubSpot then True
      else if \<not> truthy origin_hdr \<and> \<not> truthy referer_hdr then True
      else False)"

text \<open>
  \<^verbatim>\<open>POST /api/generate-viewer-token\<close>. The body is \<open>None\<close> when \<^verbatim>\<open>req.body\<close> is
  \<^verbatim>\<open>undefined\<close>: destructuring it throws, and the \<^verbatim>\<open>catch\<close> answers 500 with the
  error's message, for which the text \<^verbatim>\<open>TypeError\<close> stands. The
  test \<^verbatim>\<open>!fileId\<close> holds of an absent and of an empty field. On success the route
  answers with the token and \<^verbatim>\<open>expiresIn: 900\<close>.
\<close>

record mint_body =
  body_fileId :: "string option"
  body_filename :: "string option"

definition generate_viewer_token_handler ::
  "mint_body option \<Rightarrow> 8 word list \<Rightarrow> int \<Rightarrow> server_state \<Rightarrow>
     (string \<times> nat) outcome \<times> server_state" where
  "generate_viewer_token_handler body rnd now st =
     (case body of
        None \<Rightarrow> (Respond 500 ''TypeError'', st)
      | Some b \<Rightarrow>
          (case body_fileId b of
             None \<Rightarrow> (Respond 400 ''Missing fileId'', st)
           | Some fid \<Rightarrow>
               if fid = [] then (Respond 400 ''Missing fileId'', st)
               else
                 let (token, st1) =
                       generateViewerToken rnd now fid
                         (or_else (body_filename b) ''document'') st
                 in (Proceed (token, 900), st1)))"

definition generate_viewer_token_route ::
  "bool \<Rightarrow> string option \<Rightarrow> string option \<Rightarrow> mint_body option \<Rightarrow> 8 word list \<Rightarrow> int \<Rightarrow>
     server_state \<Rightarrow> (string \<times> nat) outcome \<times> server_state" where
  "generate_viewer_token_route isFromHubSpot origin_hdr referer_hdr body rnd now st =
     (if validateHubSpotRequest isFromHubSpot origin_hdr referer_hdr
      then generate_viewer_token_handler body rnd now st
      else (Respond 401 ''Unauthorized'', st))"

text \<open>
  \<^verbatim>\<open>GET /api/file/:fileId\<close>, up to the point where the file is fetched: the path
  parameter \<open>fid\<close> and the query parameter \<open>token\<close>.
\<close>

definition file_route_auth ::
  "string \<Rightarrow> string option \<Rightarrow> int \<Rightarrow> server_state \<Rightarrow> token_data outcome \<times> server_state" where
  "file_route_auth fid token now st =
     (if \<not> truthy token then (Respond 401 ''Missing authentication token'', st)
      else
        let (tokenData, st1) = validateViewerToken token now st
        in (case tokenData of
              None \<Rightarrow> (Respond 401 ''Invalid or expired token'', st1)
            | Some td \<Rightarrow>
                if fileId td \<noteq> fid then (Respond 401 ''Invalid or expired token'', st1)
                else (Proceed td, st1)))"

text \<open>
  \<^verbatim>\<open>POST /api/hubspot/upload\<close>, up to the request sent to HubSpot. The uploaded file
  (\<^verbatim>\<open>req.file\<close>) may be absent, and so may its buffer and its MIME type.
\<close>

record uploaded_file =
  buffer :: "8 word list option"
  originalname :: string
  mimetype :: "string option"

record upload_request =
  query_token :: "string option"
  req_file :: "uploaded_file option"
  form_filename :: "string option"
  form_fileId :: "string option"

text \<open>The request to HubSpot: replace the file with the given id, or create a new one.\<close>

datatype upstream =
    ReplaceFile string "8 word list" string string
  | UploadNew "8 word list" string string

definition upload_route ::
  "upload_request \<Rightarrow> int \<Rightarrow> server_state \<Rightarrow> upstream outcome \<times> server_state" where
  "upload_route req now st =
     (if \<not> truthy (query_token req) then (Respond 401 ''Missing authentication token'', st)
      else
        let (tokenData, st1) = validateViewerToken (query_token req) now st
        in (case tokenData of
              None \<Rightarrow> (Respond 401 ''Invalid or expired token'', st1)
            | Some td \<Rightarrow>
                (case req_file req of
                   None \<Rightarrow> (Respond 400 ''No file provided'', st1)
                 | Some file \<Rightarrow>
                     (case buffer file of
                        None \<Rightarrow> (Respond 400 ''File buffer is empty'', st1)
                      | Some buf \<Rightarrow>
                          let name = or_else (form_filename req) (originalname file);
                              ctype = or_else (mimetype file) ''application/pdf''
                          in (case form_fileId req of
                                None \<Rightarrow> (Proceed (UploadNew buf name ctype), st1)
                              | Some fid \<Rightarrow>
                                  if fid \<noteq> []
                                  then (Proceed (ReplaceFile fid buf name ctype), st1)
                                  else (Proceed (UploadNew buf name ctype), st1))))))"

subsection \<open>Sample runs\<close>

text \<open>The state at process start: \<^verbatim>\<open>new Map()\<close> and no pending timer.\<close>

definition init_state :: server_state where
  "init_state = \<lparr>viewerTokens = Map.empty, timers = []\<rparr>"

text \<open>
  A token minted at time 100 for file \<^verbatim>\<open>42\<close>, the random source returning 32 zero
  bytes; then a second one minted at time 150 for the same file, from 32 bytes \<^verbatim>\<open>ff\<close>.
\<close>

definition demo_mint :: "string \<times> server_state" where
  "demo_mint = generateViewerToken (replicate 32 0) 100 ''42'' ''a.pdf'' init_state"

definition demo_mint2 :: "string \<times> server_state" where
  "demo_mint2 = generateViewerToken (replicate 32 255) 150 ''42'' ''a.pdf'' (snd demo_mint)"

text \<open>An upload that presents the first token and names the file \<^verbatim>\<open>99\<close>.\<close>

definition demo_upload :: upload_request where
  "demo_upload =
     \<lparr>query_token = Some (fst demo_mint),
      req_file = Some \<lparr>buffer = Some [37, 80, 68, 70], originalname = ''b.pdf'',
                        mimetype = None\<rparr>,
      form_filename = None,
      form_fileId = Some ''99''\<rparr>"

section \<open>Basic facts\<close>

lemma generateViewerToken_eq:
  "generateViewerToken rnd now fid fname st =
     (toString_hex rnd,
      st\<lparr>viewerTokens := (viewerTokens st)
            (toString_hex rnd \<mapsto>
               \<lparr>fileId = fid, filename = fname, expiresAt = now + 900000, used = False\<rparr>),
         timers := timers st @ [(900000, toString_hex rnd)]\<rparr>)"
  by (simp add: generateViewerToken_def Let_def)

lemma validate_hit:
  "viewerTokens st t = Some td \<Longrightarrow> now \<le> expiresAt td \<Longrightarrow>
     validateViewerToken (Some t) now st = (Some td, st)"
  by (simp add: validateViewerToken_def Map_get_def)

lemma validate_expired:
  "viewerTokens st t = Some td \<Longrightarrow> expiresAt td < now \<Longrightarrow>
     validateViewerToken (Some t) now st =
       (None, st\<lparr>viewerTokens := (viewerTokens st)(t := None)\<rparr>)"
  by (simp add: validateViewerToken_def Map_get_def Map_delete_def)

lemma validate_miss:
  "Map_get (viewerTokens st) tok = None \<Longrightarrow> validateViewerToken tok now st = (None, st)"
  by (simp add: validateViewerToken_def)

text \<open>A validation touches no entry but the one of its own token, and reads no other.\<close>

lemma validate_other_key:
  "t' \<noteq> t \<Longrightarrow> viewerTokens (snd (validateViewerToken (Some t) now st)) t' = viewerTokens st t'"
  by (simp add: validateViewerToken_def Map_get_def Map_delete_def split: option.splits)

lemma validate_depends_on_own_entry:
  "viewerTokens st1 t = viewerTokens st2 t \<Longrightarrow>
     fst (validateViewerToken (Some t) now st1) = fst (validateViewerToken (Some t) now st2)"
  by (simp add: validateViewerToken_def Map_get_def split: option.splits)

lemma cleanup_other_key:
  "t' \<noteq> t \<Longrightarrow> viewerTokens (cleanup_callback t st) t' = viewerTokens st t'"
  by (simp add: cleanup_callback_def)

lemma cleanup_absent: "viewerTokens st t = None \<Longrightarrow> cleanup_callback t st = st"
  by (simp add: cleanup_callback_def fun_upd_idem)

lemma file_route_auth_hit:
  "viewerTokens st t = Some td \<Longrightarrow> now \<le> expiresAt td \<Longrightarrow> t \<noteq> [] \<Longrightarrow>
     file_route_auth fid (Some t) now st =
       (if fileId td \<noteq> fid then Respond 401 ''Invalid or expired token'' else Proceed td, st)"
  by (simp add: file_route_auth_def truthy_def validate_hit)

subsection \<open>The hexadecimal rendering is injective\<close>

lemma hex_digit_inj:
  assumes "m < 16" "n < 16" "hex_digit m = hex_digit n"
  shows "m = n"
proof -
  have d: "distinct ''0123456789abcdef''" by simp
  have l: "length ''0123456789abcdef'' = 16" by simp
  from assms show ?thesis
    unfolding hex_digit_def using d l nth_eq_iff_index_eq by metis
qed

lemma hex_byte_inj: "hex_byte a = hex_byte b \<Longrightarrow> a = b"
proof -
  assume h: "hex_byte a = hex_byte b"
  have la: "unat a div 16 < 16" and lb: "unat b div 16 < 16"
    using unsigned_less [of a, where ?'a = nat] unsigned_less [of b, where ?'a = nat]
    by simp_all
  from h have "hex_digit (unat a div 16) = hex_digit (unat b div 16)"
    and "hex_digit (unat a mod 16) = hex_digit (unat b mod 16)"
    by (simp_all add: hex_byte_def)
  then have q: "unat a div 16 = unat b div 16" and r: "unat a mod 16 = unat b mod 16"
    using la lb by (auto intro: hex_digit_inj)
  have "unat a = unat b"
    using q r by (metis div_mult_mod_eq)
  then show "a = b" by (simp add: word_unat_eq_iff)
qed

lemma toString_hex_inj: "toString_hex xs = toString_hex ys \<Longrightarrow> xs = ys"
proof (induction xs arbitrary: ys)
  case Nil
  then show ?case by (cases ys) (simp_all add: toString_hex_def hex_byte_def)
next
  case (Cons x xs)
  show ?case
  proof (cases ys)
    case Nil
    with Cons.prems show ?thesis by (simp add: toString_hex_def hex_byte_def)
  next
    case (Cons y ys')
    with Cons.prems have e: "hex_byte x @ toString_hex xs = hex_byte y @ toString_hex ys'"
      by (simp add: toString_hex_def)
    have "length (hex_byte x) = length (hex_byte y)" by (simp add: hex_byte_def)
    with e have "hex_byte x = hex_byte y" and "toString_hex xs = toString_hex ys'"
      by simp_all
    with Cons.IH [of ys'] Cons show ?thesis by (simp add: hex_byte_inj)
  qed
qed

lemma length_toString_hex: "length (toString_hex bs) = 2 * length bs"
  by (induction bs) (simp_all add: toString_hex_def hex_byte_def)

lemma toString_hex_nonempty: "length rnd = 32 \<Longrightarrow> toString_hex rnd \<noteq> []"
  using length_toString_hex [of rnd] by auto

lemma demo_mint_record:
  "viewerTokens (snd demo_mint) (fst demo_mint) =
     Some \<lparr>fileId = ''42'', filename = ''a.pdf'', expiresAt = 900100, used = False\<rparr>"
  by (simp add: demo_mint_def generateViewerToken_eq)

lemma demo_mint_token: "fst demo_mint \<noteq> []"
  by (simp add: demo_mint_def generateViewerToken_eq toString_hex_nonempty)

section \<open>Expiry\<close>

text \<open>
  C1, as stated: a validation at a time \<open>now \<ge> expiresAt\<close> fails and deletes the record,
  so a token is already invalid at the instant \<open>expiresAt\<close>. The source compares with
  \<^verbatim>\<open>Date.now() > tokenData.expiresAt\<close>. A token minted at time 100 expires at 900100;
  validated at exactly 900100 it is returned, and the state is left as it was.
\<close>

theorem valid_at_expiresAt_counterexample:
  "fst demo_mint = replicate 64 CHR ''0''
   \<and> viewerTokens (snd demo_mint) (fst demo_mint) =
     Some \<lparr>fileId = ''42'', filename = ''a.pdf'', expiresAt = 900100, used = False\<rparr>
   \<and> validateViewerToken (Some (fst demo_mint)) 900100 (snd demo_mint) =
     (Some \<lparr>fileId = ''42'', filename = ''a.pdf'', expiresAt = 900100, used = False\<rparr>,
      snd demo_mint)"
proof -
  have "toString_hex (replicate 32 0) = replicate 64 CHR ''0''"
    by code_simp
  then have "fst demo_mint = replicate 64 CHR ''0''"
    by (simp add: demo_mint_def generateViewerToken_eq)
  with demo_mint_record show ?thesis
    by (simp add: validateViewerToken_def Map_get_def)
qed

text \<open>
  C1, amended: for every stored record, a validation at a time strictly after
  \<open>expiresAt\<close> returns \<^verbatim>\<open>null\<close> and deletes the record (and nothing else); at exactly
  \<open>expiresAt\<close> the validation still returns the record and changes nothing.
\<close>

theorem expired_strictly_after_expiresAt:
  assumes "viewerTokens st t = Some td"
  shows "(expiresAt td < now \<longrightarrow>
            validateViewerToken (Some t) now st =
              (None, st\<lparr>viewerTokens := (viewerTokens st)(t := None)\<rparr>))
       \<and> (now = expiresAt td \<longrightarrow> validateViewerToken (Some t) now st = (Some td, st))"
  using assms by (simp add: validate_hit validate_expired)

theorem expired_strictly_after_expiresAt_witness:
  "viewerTokens (snd demo_mint) (fst demo_mint) =
     Some \<lparr>fileId = ''42'', filename = ''a.pdf'', expiresAt = 900100, used = False\<rparr>
   \<and> validateViewerToken (Some (fst demo_mint)) 900101 (snd demo_mint) =
        (None, (snd demo_mint)\<lparr>viewerTokens :=
                  (viewerTokens (snd demo_mint))(fst demo_mint := None)\<rparr>)
   \<and> validateViewerToken (Some (fst demo_mint)) 900100 (snd demo_mint) =
        (Some \<lparr>fileId = ''42'', filename = ''a.pdf'', expiresAt = 900100, used = False\<rparr>,
         snd demo_mint)"
proof -
  note h = demo_mint_record
  from expired_strictly_after_expiresAt [OF h, of 900101]
       expired_strictly_after_expiresAt [OF h, of 900100] h
  show ?thesis by simp
qed

text \<open>
  C4: when a record is past its expiry, the validation that sees this returns \<^verbatim>\<open>null\<close>
  and has removed the record; every later validation of the same token, at whatever time
  \<open>now2\<close>, finds no record, returns \<^verbatim>\<open>null\<close> and changes nothing.
\<close>

theorem expired_then_not_found:
  assumes "viewerTokens st t = Some td" and "expiresAt td < now"
  shows "fst (validateViewerToken (Some t) now st) = None
       \<and> viewerTokens (snd (validateViewerToken (Some t) now st)) t = None
       \<and> (\<forall>now2. validateViewerToken (Some t) now2 (snd (validateViewerToken (Some t) now st)) =
                    (None, snd (validateViewerToken (Some t) now st)))"
  using assms by (simp add: validate_expired validate_miss Map_get_def)

theorem expired_then_not_found_witness:
  "viewerTokens (snd demo_mint) (fst demo_mint) =
     Some \<lparr>fileId = ''42'', filename = ''a.pdf'', expiresAt = 900100, used = False\<rparr>
   \<and> fst (validateViewerToken (Some (fst demo_mint)) 900101 (snd demo_mint)) = None
   \<and> viewerTokens (snd (validateViewerToken (Some (fst demo_mint)) 900101 (snd demo_mint)))
        (fst demo_mint) = None
   \<and> validateViewerToken (Some (fst demo_mint)) 900102
        (snd (validateViewerToken (Some (fst demo_mint)) 900101 (snd demo_mint))) =
        (None, snd (validateViewerToken (Some (fst demo_mint)) 900101 (snd demo_mint)))"
proof -
  note h = demo_mint_record
  have e: "expiresAt \<lparr>fileId = ''42'', filename = ''a.pdf'', expiresAt = 900100, used = False\<rparr>
             < 900101" by simp
  from expired_then_not_found [OF h e] h show ?thesis by blast
qed

section \<open>Minting, then validating\<close>

text \<open>
  C3: after \<^verbatim>\<open>generateViewerToken(fileId, filename)\<close> at time \<open>now\<close> has returned the
  token \<open>T\<close>, the store holds under \<open>T\<close> the record with the given file id and file name,
  \<open>expiresAt = now + 15 minutes\<close> and \<open>used = false\<close>; a validation at any time up to
  \<open>now + 15 minutes\<close> returns that record and changes nothing, and the file route's check
  for the same file id passes with it.
\<close>

theorem mint_then_validate:
  assumes "length rnd = 32"
    and "generateViewerToken rnd now fid fname st = (T, st1)"
    and "now2 \<le> now + 15 * 60 * 1000"
  shows "viewerTokens st1 T =
           Some \<lparr>fileId = fid, filename = fname, expiresAt = now + 15 * 60 * 1000, used = False\<rparr>
       \<and> validateViewerToken (Some T) now2 st1 =
           (Some \<lparr>fileId = fid, filename = fname, expiresAt = now + 15 * 60 * 1000, used = False\<rparr>,
            st1)
       \<and> file_route_auth fid (Some T) now2 st1 =
           (Proceed \<lparr>fileId = fid, filename = fname, expiresAt = now + 15 * 60 * 1000,
                     used = False\<rparr>, st1)"
proof -
  let ?td = "\<lparr>fileId = fid, filename = fname, expiresAt = now + 900000, used = False\<rparr>"
  from assms(2) have T: "T = toString_hex rnd" and s: "viewerTokens st1 T = Some ?td"
    by (auto simp: generateViewerToken_eq)
  from T assms(1) have ne: "T \<noteq> []" by (simp add: toString_hex_nonempty)
  from assms(3) have le: "now2 \<le> expiresAt ?td" by simp
  from validate_hit [OF s le] file_route_auth_hit [OF s le ne, of fid] s
  show ?thesis by simp
qed

theorem mint_then_validate_witness:
  "length (replicate 32 (0::8 word)) = 32
   \<and> (100::int) \<le> 100 + 15 * 60 * 1000
   \<and> validateViewerToken (Some (fst demo_mint)) 100 (snd demo_mint) =
        (Some \<lparr>fileId = ''42'', filename = ''a.pdf'', expiresAt = 900100, used = False\<rparr>,
         snd demo_mint)
   \<and> file_route_auth ''42'' (Some (fst demo_mint)) 100 (snd demo_mint) =
        (Proceed \<lparr>fileId = ''42'', filename = ''a.pdf'', expiresAt = 900100, used = False\<rparr>,
         snd demo_mint)"
proof -
  have l: "length (replicate 32 (0::8 word)) = 32" by simp
  have m: "generateViewerToken (replicate 32 0) 100 ''42'' ''a.pdf'' init_state =
             (fst demo_mint, snd demo_mint)"
    by (simp add: demo_mint_def)
  have t: "(100::int) \<le> 100 + 15 * 60 * 1000" by simp
  from mint_then_validate [OF l m t] show ?thesis by simp
qed

section \<open>The file id bound to a token\<close>

text \<open>
  C5: for a live token bound to file \<open>F\<close> and a requested file id other than \<open>F\<close>, the
  validation itself returns the record, the file route answers 401 and leaves the state
  exactly as it was, and a following request with the same token for \<open>F\<close>, made before
  the expiry, passes.
\<close>

theorem mismatch_leaves_store:
  assumes "viewerTokens st t = Some td" and "t \<noteq> []"
    and "now \<le> expiresAt td" and "other \<noteq> fileId td"
  shows "fst (validateViewerToken (Some t) now st) = Some td
       \<and> file_route_auth other (Some t) now st = (Respond 401 ''Invalid or expired token'', st)
       \<and> (now2 \<le> expiresAt td \<longrightarrow>
             file_route_auth (fileId td) (Some t) now2
               (snd (file_route_auth other (Some t) now st)) = (Proceed td, st))"
  using assms by (simp add: file_route_auth_hit validate_hit)

theorem mismatch_leaves_store_witness:
  "viewerTokens (snd demo_mint) (fst demo_mint) =
     Some \<lparr>fileId = ''42'', filename = ''a.pdf'', expiresAt = 900100, used = False\<rparr>
   \<and> fst demo_mint \<noteq> [] \<and> ''99'' \<noteq> ''42''
   \<and> file_route_auth ''99'' (Some (fst demo_mint)) 200 (snd demo_mint) =
        (Respond 401 ''Invalid or expired token'', snd demo_mint)
   \<and> file_route_auth ''42'' (Some (fst demo_mint)) 300
        (snd (file_route_auth ''99'' (Some (fst demo_mint)) 200 (snd demo_mint))) =
        (Proceed \<lparr>fileId = ''42'', filename = ''a.pdf'', expiresAt = 900100, used = False\<rparr>,
         snd demo_mint)"
proof -
  let ?td = "\<lparr>fileId = ''42'', filename = ''a.pdf'', expiresAt = 900100, used = False\<rparr>"
  note h = demo_mint_record and n = demo_mint_token
  have l: "200 \<le> expiresAt ?td" by simp
  have o: "''99'' \<noteq> fileId ?td" by simp
  note th = mismatch_leaves_store [OF h n l o, of 300]
  from th have a: "file_route_auth ''99'' (Some (fst demo_mint)) 200 (snd demo_mint) =
      (Respond 401 ''Invalid or expired token'', snd demo_mint)"
    by blast
  have l2: "300 \<le> expiresAt ?td" by simp
  have f: "fileId ?td = ''42''" by simp
  from th l2 have b: "file_route_auth (fileId ?td) (Some (fst demo_mint)) 300
      (snd (file_route_auth ''99'' (Some (fst demo_mint)) 200 (snd demo_mint))) =
      (Proceed ?td, snd demo_mint)"
    by blast
  have o': "''99'' \<noteq> ''42''" by simp
  from a b [unfolded f] h n o' show ?thesis by blast
qed

text \<open>
  C2: the upload route asks only for a token that validates. With a live token, whatever
  file id \<open>A\<close> its record is bound to, an upload that carries a file and names any
  non-empty file id \<open>B\<close> goes on to replace file \<open>B\<close> at HubSpot; the record's file id
  does not enter the outcome.
\<close>

theorem upload_accepts_token_of_any_file:
  assumes "viewerTokens st t = Some td" and "t \<noteq> []" and "now \<le> expiresAt td"
    and "query_token req = Some t"
    and "req_file req = Some file" and "buffer file = Some buf"
    and "form_fileId req = Some B" and "B \<noteq> []"
  shows "upload_route req now st =
           (Proceed (ReplaceFile B buf (or_else (form_filename req) (originalname file))
                       (or_else (mimetype file) ''application/pdf'')), st)
       \<and> fst (upload_route req now
                (st\<lparr>viewerTokens := (viewerTokens st)(t \<mapsto> td\<lparr>fileId := A\<rparr>)\<rparr>)) =
           fst (upload_route req now st)"
proof -
  let ?st' = "st\<lparr>viewerTokens := (viewerTokens st)(t \<mapsto> td\<lparr>fileId := A\<rparr>)\<rparr>"
  have s': "viewerTokens ?st' t = Some (td\<lparr>fileId := A\<rparr>)" by simp
  from assms(3) have l': "now \<le> expiresAt (td\<lparr>fileId := A\<rparr>)" by simp
  from assms show ?thesis
    by (simp add: upload_route_def truthy_def validate_hit validate_hit [OF s' l'])
qed

theorem upload_accepts_token_of_any_file_witness:
  "viewerTokens (snd demo_mint) (fst demo_mint) =
     Some \<lparr>fileId = ''42'', filename = ''a.pdf'', expiresAt = 900100, used = False\<rparr>
   \<and> fst demo_mint \<noteq> [] \<and> ''99'' \<noteq> ''42''
   \<and> upload_route demo_upload 200 (snd demo_mint) =
       (Proceed (ReplaceFile ''99'' [37, 80, 68, 70] ''b.pdf'' ''application/pdf''),
        snd demo_mint)"
proof -
  let ?td = "\<lparr>fileId = ''42'', filename = ''a.pdf'', expiresAt = 900100, used = False\<rparr>"
  let ?f = "\<lparr>buffer = Some [37, 80, 68, 70 :: 8 word], originalname = ''b.pdf'',
              mimetype = None\<rparr>"
  note h = demo_mint_record and n = demo_mint_token
  have l: "200 \<le> expiresAt ?td" by simp
  have q: "query_token demo_upload = Some (fst demo_mint)" by (simp add: demo_upload_def)
  have f: "req_file demo_upload = Some ?f" by (simp add: demo_upload_def)
  have b: "buffer ?f = Some [37, 80, 68, 70]" by simp
  have i: "form_fileId demo_upload = Some ''99''" by (simp add: demo_upload_def)
  have e: "''99'' \<noteq> []" by simp
  from upload_accepts_token_of_any_file [OF h n l q f b i e] h n
  show ?thesis by (simp add: or_else_def demo_upload_def)
qed

section \<open>Validation as a pure check\<close>

text \<open>
  C6: for a token whose record \<open>td\<close> is unexpired at each of the times \<open>nows\<close>, the
  successive validations at these times all return \<open>td\<close> itself, and the state after
  them is the state before them: no field of the record (file id, file name, expiry,
  \<open>used\<close>) and no other entry has changed. The record is arbitrary, whatever its
  \<open>used\<close> flag.
\<close>

theorem validate_seq_pure:
  assumes "viewerTokens st t = Some td" and "\<forall>now \<in> set nows. now \<le> expiresAt td"
  shows "validate_seq (Some t) nows st = (map (\<lambda>now. Some td) nows, st)"
  using assms by (induction nows) (simp_all add: validate_hit)

theorem validate_seq_pure_witness:
  "viewerTokens (snd demo_mint) (fst demo_mint) =
     Some \<lparr>fileId = ''42'', filename = ''a.pdf'', expiresAt = 900100, used = False\<rparr>
   \<and> (100::int) \<le> 900100 \<and> (5000::int) \<le> 900100 \<and> (900100::int) \<le> 900100
   \<and> validate_seq (Some (fst demo_mint)) [100, 5000, 900100] (snd demo_mint) =
       (replicate 3 (Some \<lparr>fileId = ''42'', filename = ''a.pdf'', expiresAt = 900100,
                            used = False\<rparr>), snd demo_mint)"
proof -
  let ?td = "\<lparr>fileId = ''42'', filename = ''a.pdf'', expiresAt = 900100, used = False\<rparr>"
  note h = demo_mint_record
  have a: "\<forall>now \<in> set [100, 5000, 900100::int]. now \<le> expiresAt ?td" by simp
  from validate_seq_pure [OF h a] h show ?thesis by (simp add: numeral_3_eq_3)
qed

section \<open>Two tokens\<close>

text \<open>
  C7: two consecutive mints for the same file id, the random source returning different
  bytes for them, give two different token strings; after the second mint both records
  are in the store, each with its own expiry; and what a validation of one token returns
  is the same whether or not the other has just been expired by a late validation or
  deleted by its timer.
\<close>

theorem two_mints_independent:
  assumes "rnd1 \<noteq> rnd2"
    and "generateViewerToken rnd1 now1 fid f1 st = (T1, st1)"
    and "generateViewerToken rnd2 now2 fid f2 st1 = (T2, st2)"
  shows "T1 \<noteq> T2
       \<and> viewerTokens st2 T1 =
           Some \<lparr>fileId = fid, filename = f1, expiresAt = now1 + 15 * 60 * 1000, used = False\<rparr>
       \<and> viewerTokens st2 T2 =
           Some \<lparr>fileId = fid, filename = f2, expiresAt = now2 + 15 * 60 * 1000, used = False\<rparr>
       \<and> fst (validateViewerToken (Some T2) n (snd (validateViewerToken (Some T1) m st2))) =
           fst (validateViewerToken (Some T2) n st2)
       \<and> fst (validateViewerToken (Some T1) n (snd (validateViewerToken (Some T2) m st2))) =
           fst (validateViewerToken (Some T1) n st2)
       \<and> fst (validateViewerToken (Some T2) n (cleanup_callback T1 st2)) =
           fst (validateViewerToken (Some T2) n st2)
       \<and> fst (validateViewerToken (Some T1) n (cleanup_callback T2 st2)) =
           fst (validateViewerToken (Some T1) n st2)"
proof -
  from assms(2) have T1: "T1 = toString_hex rnd1"
    and s1: "st1 = snd (generateViewerToken rnd1 now1 fid f1 st)"
    by (auto simp: generateViewerToken_eq)
  from assms(3) have T2: "T2 = toString_hex rnd2"
    and s2: "st2 = snd (generateViewerToken rnd2 now2 fid f2 st1)"
    by (auto simp: generateViewerToken_eq)
  from assms(1) T1 T2 have d: "T1 \<noteq> T2" using toString_hex_inj by blast
  then have d': "T2 \<noteq> T1" by simp
  have r1: "viewerTokens st2 T1 =
      Some \<lparr>fileId = fid, filename = f1, expiresAt = now1 + 15 * 60 * 1000, used = False\<rparr>"
    using d T1 T2 by (simp add: s1 s2 generateViewerToken_eq)
  have r2: "viewerTokens st2 T2 =
      Some \<lparr>fileId = fid, filename = f2, expiresAt = now2 + 15 * 60 * 1000, used = False\<rparr>"
    using T2 by (simp add: s2 generateViewerToken_eq)
  note i1 = validate_depends_on_own_entry [OF validate_other_key [OF d', of m st2], of n]
  note i2 = validate_depends_on_own_entry [OF validate_other_key [OF d, of m st2], of n]
  note i3 = validate_depends_on_own_entry [OF cleanup_other_key [OF d', of st2], of n]
  note i4 = validate_depends_on_own_entry [OF cleanup_other_key [OF d, of st2], of n]
  from d r1 r2 i1 i2 i3 i4 show ?thesis by blast
qed

theorem two_mints_independent_witness:
  "replicate 32 (0::8 word) \<noteq> replicate 32 255
   \<and> fst demo_mint \<noteq> fst demo_mint2
   \<and> viewerTokens (snd demo_mint2) (fst demo_mint) =
        Some \<lparr>fileId = ''42'', filename = ''a.pdf'', expiresAt = 900100, used = False\<rparr>
   \<and> viewerTokens (snd demo_mint2) (fst demo_mint2) =
        Some \<lparr>fileId = ''42'', filename = ''a.pdf'', expiresAt = 900150, used = False\<rparr>
   \<and> fst (validateViewerToken (Some (fst demo_mint2)) 900120
            (snd (validateViewerToken (Some (fst demo_mint)) 900110 (snd demo_mint2)))) =
       fst (validateViewerToken (Some (fst demo_mint2)) 900120 (snd demo_mint2))
   \<and> fst (validateViewerToken (Some (fst demo_mint2)) 900120
            (cleanup_callback (fst demo_mint) (snd demo_mint2))) =
       fst (validateViewerToken (Some (fst demo_mint2)) 900120 (snd demo_mint2))"
proof -
  have r: "replicate 32 (0::8 word) \<noteq> replicate 32 255"
    by (simp add: replicate_eq_replicate)
  have m1: "generateViewerToken (replicate 32 0) 100 ''42'' ''a.pdf'' init_state =
             (fst demo_mint, snd demo_mint)"
    by (simp add: demo_mint_def)
  have m2: "generateViewerToken (replicate 32 255) 150 ''42'' ''a.pdf'' (snd demo_mint) =
             (fst demo_mint2, snd demo_mint2)"
    by (simp add: demo_mint2_def)
  from two_mints_independent [OF r m1 m2, of 900120 900110] r
  show ?thesis by simp
qed

section \<open>The mint route\<close>

text \<open>
  C8: a mint request whose \<open>fileId\<close> is absent or empty is answered with an error and
  leaves the state as it was: no record, no timer, no token (and so is a request without
  a body). A request with a file id and no \<open>filename\<close>, once past the middleware, is
  answered with the token, and the record stored under it carries the file name
  \<^verbatim>\<open>document\<close>.
\<close>

theorem mint_requires_fileId:
  "(\<not> truthy (body_fileId b) \<longrightarrow>
      generate_viewer_token_route hs origin_hdr referer_hdr (Some b) rnd now st =
        (if validateHubSpotRequest hs origin_hdr referer_hdr
         then Respond 400 ''Missing fileId'' else Respond 401 ''Unauthorized'', st))
   \<and> generate_viewer_token_route hs origin_hdr referer_hdr None rnd now st =
        (if validateHubSpotRequest hs origin_hdr referer_hdr
         then Respond 500 ''TypeError'' else Respond 401 ''Unauthorized'', st)
   \<and> (truthy (body_fileId b) \<and> body_filename b = None \<and>
        validateHubSpotRequest hs origin_hdr referer_hdr \<longrightarrow>
      (\<exists>fid. body_fileId b = Some fid
        \<and> generate_viewer_token_route hs origin_hdr referer_hdr (Some b) rnd now st =
           (Proceed (toString_hex rnd, 900),
            st\<lparr>viewerTokens := (viewerTokens st)
                  (toString_hex rnd \<mapsto>
                     \<lparr>fileId = fid, filename = ''document'',
                      expiresAt = now + 15 * 60 * 1000, used = False\<rparr>),
               timers := timers st @ [(15 * 60 * 1000, toString_hex rnd)]\<rparr>)))"
  by (cases "body_fileId b")
     (simp_all add: generate_viewer_token_route_def generate_viewer_token_handler_def
        truthy_def or_else_def generateViewerToken_eq)

theorem mint_requires_fileId_witness:
  "\<not> truthy (body_fileId \<lparr>body_fileId = Some [], body_filename = Some ''a.pdf''\<rparr>)
   \<and> generate_viewer_token_route True None None
        (Some \<lparr>body_fileId = Some [], body_filename = Some ''a.pdf''\<rparr>)
        (replicate 32 0) 100 init_state = (Respond 400 ''Missing fileId'', init_state)
   \<and> \<not> truthy (body_fileId \<lparr>body_fileId = None, body_filename = None\<rparr>)
   \<and> generate_viewer_token_route True None None
        (Some \<lparr>body_fileId = None, body_filename = None\<rparr>)
        (replicate 32 0) 100 init_state = (Respond 400 ''Missing fileId'', init_state)
   \<and> truthy (body_fileId \<lparr>body_fileId = Some ''42'', body_filename = None\<rparr>)
   \<and> validateHubSpotRequest True None None
   \<and> fst (generate_viewer_token_route True None None
        (Some \<lparr>body_fileId = Some ''42'', body_filename = None\<rparr>)
        (replicate 32 0) 100 init_state) = Proceed (toString_hex (replicate 32 0), 900)
   \<and> viewerTokens (snd (generate_viewer_token_route True None None
        (Some \<lparr>body_fileId = Some ''42'', body_filename = None\<rparr>)
        (replicate 32 0) 100 init_state)) (toString_hex (replicate 32 0)) =
       Some \<lparr>fileId = ''42'', filename = ''document'', expiresAt = 900100, used = False\<rparr>"
proof -
  have t1: "\<not> truthy (body_fileId \<lparr>body_fileId = Some [], body_filename = Some ''a.pdf''\<rparr>)"
    by (simp add: truthy_def)
  have t2: "\<not> truthy (body_fileId \<lparr>body_fileId = None, body_filename = None\<rparr>)"
    by (simp add: truthy_def)
  have t3: "truthy (body_fileId \<lparr>body_fileId = Some ''42'', body_filename = None\<rparr>)"
    by (simp add: truthy_def)
  have v: "validateHubSpotRequest True None None"
    by (simp add: validateHubSpotRequest_def)
  from mint_requires_fileId
         [of "\<lparr>body_fileId = Some [], body_filename = Some ''a.pdf''\<rparr>" True None None
             "replicate 32 0" 100 init_state]
       mint_requires_fileId
         [of "\<lparr>body_fileId = None, body_filename = None\<rparr>" True None None
             "replicate 32 0" 100 init_state]
       mint_requires_fileId
         [of "\<lparr>body_fileId = Some ''42'', body_filename = None\<rparr>" True None None
             "replicate 32 0" 100 init_state]
       t1 t2 t3 v
  show ?thesis by auto
qed

section \<open>The deferred deletion\<close>

text \<open>
  C9: the callback scheduled at mint time deletes by key. Run when the store has no
  record under the token, it leaves the whole state as it is, and a timer that fires
  then leaves the store as it is; run twice, it does what it does run once; run after a
  late validation has already removed the expired record, it changes nothing. The
  callback has no failing branch.
\<close>

theorem cleanup_idempotent:
  "(viewerTokens st t = None \<longrightarrow>
      cleanup_callback t st = st \<and> viewerTokens (run_timer (d, t) st) = viewerTokens st)
   \<and> cleanup_callback t (cleanup_callback t st) = cleanup_callback t st
   \<and> (viewerTokens st t = Some td \<and> expiresAt td < now \<longrightarrow>
        cleanup_callback t (snd (validateViewerToken (Some t) now st)) =
          snd (validateViewerToken (Some t) now st))"
proof -
  have a: "viewerTokens st t = None \<longrightarrow> cleanup_callback t st = st"
    by (simp add: cleanup_absent)
  have b: "viewerTokens st t = None \<longrightarrow> viewerTokens (run_timer (d, t) st) = viewerTokens st"
    by (simp add: run_timer_def cleanup_callback_def fun_upd_idem)
  have c: "cleanup_callback t (cleanup_callback t st) = cleanup_callback t st"
    by (simp add: cleanup_callback_def)
  have e: "viewerTokens st t = Some td \<and> expiresAt td < now \<longrightarrow>
        cleanup_callback t (snd (validateViewerToken (Some t) now st)) =
          snd (validateViewerToken (Some t) now st)"
    by (simp add: validate_expired cleanup_callback_def)
  from a b c e show ?thesis by blast
qed

theorem cleanup_idempotent_witness:
  "viewerTokens init_state ''ab'' = None
   \<and> cleanup_callback ''ab'' init_state = init_state
   \<and> viewerTokens (snd demo_mint) (fst demo_mint) =
        Some \<lparr>fileId = ''42'', filename = ''a.pdf'', expiresAt = 900100, used = False\<rparr>
   \<and> cleanup_callback (fst demo_mint)
        (snd (validateViewerToken (Some (fst demo_mint)) 900101 (snd demo_mint))) =
       snd (validateViewerToken (Some (fst demo_mint)) 900101 (snd demo_mint))"
proof -
  let ?td = "\<lparr>fileId = ''42'', filename = ''a.pdf'', expiresAt = 900100, used = False\<rparr>"
  have a: "viewerTokens init_state ''ab'' = None" by (simp add: init_state_def)
  note h = demo_mint_record
  have e: "expiresAt ?td < 900101" by simp
  from cleanup_idempotent [of init_state "''ab''" 900000 ?td 5]
       cleanup_idempotent [of "snd demo_mint" "fst demo_mint" 900000 ?td 900101] a h e
  show ?thesis by blast
qed

section \<open>One failure value\<close>

text \<open>
  C10: \<^verbatim>\<open>validateViewerToken\<close> has a result for every token, the absent one and the
  empty string included: it returns \<^verbatim>\<open>null\<close> or the record stored under the token, and
  none of its steps can throw. It returns the same \<^verbatim>\<open>null\<close> when no record exists
  (\<^verbatim>\<open>undefined\<close> never has one) and when the record is expired, so the result alone
  does not tell the two apart.
\<close>

theorem validate_null_on_missing_and_expired:
  "(Map_get (viewerTokens st) tok = None \<longrightarrow> validateViewerToken tok now st = (None, st))
   \<and> (Map_get (viewerTokens st) tok = Some td \<and> expiresAt td < now \<longrightarrow>
        fst (validateViewerToken tok now st) = None)
   \<and> validateViewerToken None now st = (None, st)
   \<and> fst (validateViewerToken tok now st) \<in> {None, Map_get (viewerTokens st) tok}"
  by (simp add: validateViewerToken_def Map_get_def split: option.splits)

theorem validate_null_on_missing_and_expired_witness:
  "Map_get (viewerTokens init_state) (Some []) = None
   \<and> validateViewerToken (Some []) 100 init_state = (None, init_state)
   \<and> Map_get (viewerTokens (snd demo_mint)) (Some (fst demo_mint)) =
        Some \<lparr>fileId = ''42'', filename = ''a.pdf'', expiresAt = 900100, used = False\<rparr>
   \<and> fst (validateViewerToken (Some (fst demo_mint)) 900101 (snd demo_mint)) = None
   \<and> fst (validateViewerToken (Some (fst demo_mint)) 900101 (snd demo_mint)) =
       fst (validateViewerToken (Some []) 100 init_state)"
proof -
  let ?td = "\<lparr>fileId = ''42'', filename = ''a.pdf'', expiresAt = 900100, used = False\<rparr>"
  have a: "Map_get (viewerTokens init_state) (Some []) = None"
    by (simp add: init_state_def Map_get_def)
  have h: "Map_get (viewerTokens (snd demo_mint)) (Some (fst demo_mint)) = Some ?td"
    by (simp add: demo_mint_record Map_get_def)
  have e: "expiresAt ?td < 900101" by simp
  from validate_null_on_missing_and_expired [of init_state "Some []" 100 ?td]
       validate_null_on_missing_and_expired [of "snd demo_mint" "Some (fst demo_mint)" 900101 ?td]
       a h e
  show ?thesis by simp
qed

end
